theory Spec2Isabelle
  imports Main "HOL-Library.Multiset"
begin

section \<open>JavaScript values\<close>

text \<open>
  Everything the client receives from the backend is the result of \<^verbatim>\<open>response.json()\<close>:
  a JSON value, used by the program without any run-time type check. The model keeps
  those values untyped, as the program does. \<open>JUndefined\<close> is JavaScript's
  \<^verbatim>\<open>undefined\<close> (an absent property, the result of a 204 response). A number is
  represented by its canonical rendering (what \<^verbatim>\<open>Number.prototype.toString\<close> gives),
  because the program only tests numbers for truthiness and converts them to strings;
  zero is \<open>''0''\<close>. An object is the list of its own properties in insertion order.
\<close>

datatype jsval =
    JUndefined
  | JNull
  | JBool bool
  | JNum string
  | JStr string
  | JArr "jsval list"
  | JObj "(string \<times> jsval) list"

type_synonym obj = "(string \<times> jsval) list"

text \<open>
  Values the program throws or rejects a promise with. \<open>Error m\<close> is
  \<^verbatim>\<open>new Error(m)\<close>; the other three are raised by the engine itself
  (a property read on \<^verbatim>\<open>null\<close>, \<^verbatim>\<open>toISOString\<close> of an invalid date, a body that
  is not JSON, a failed \<^verbatim>\<open>fetch\<close>), and their messages are engine specific.
\<close>

datatype js_error = Error string | TypeError | RangeError | SyntaxError

text \<open>JavaScript's \<^verbatim>\<open>!!v\<close>.\<close>

fun truthy :: "jsval \<Rightarrow> bool" where
  "truthy JUndefined = False"
| "truthy JNull = False"
| "truthy (JBool b) = b"
| "truthy (JNum r) = (r \<noteq> ''0'')"
| "truthy (JStr s) = (s \<noteq> [])"
| "truthy (JArr xs) = True"
| "truthy (JObj kv) = True"

text \<open>
  The property read \<^verbatim>\<open>v.k\<close>, for the property names the program reads
  (\<^verbatim>\<open>detail\<close>, \<^verbatim>\<open>access_token\<close>, \<^verbatim>\<open>last_update\<close>, \<^verbatim>\<open>created_on\<close>, \<^verbatim>\<open>id\<close>),
  none of which is defined on a prototype: it throws on \<^verbatim>\<open>null\<close> and
  \<^verbatim>\<open>undefined\<close>, finds own properties on an object and is \<^verbatim>\<open>undefined\<close> elsewhere.
\<close>

definition obj_get :: "obj \<Rightarrow> string \<Rightarrow> jsval" where
  "obj_get kv k = (case map_of kv k of None \<Rightarrow> JUndefined | Some v \<Rightarrow> v)"

fun js_get :: "jsval \<Rightarrow> string \<Rightarrow> js_error + jsval" where
  "js_get JUndefined k = Inl TypeError"
| "js_get JNull k = Inl TypeError"
| "js_get (JObj kv) k = Inr (obj_get kv k)"
| "js_get v k = Inr JUndefined"

text \<open>
  Writing a property in an object literal after a spread: an existing key keeps its place
  and takes the new value, a new key is appended.
\<close>

fun obj_set :: "string \<Rightarrow> jsval \<Rightarrow> obj \<Rightarrow> obj" where
  "obj_set k v [] = [(k, v)]"
| "obj_set k v (p # ps) = (if fst p = k then (k, v) # ps else p # obj_set k v ps)"

text \<open>Decimal rendering of a natural number, as a template literal renders a status code or an index.\<close>

definition digit :: "nat \<Rightarrow> char" where
  "digit d = ''0123456789'' ! d"

fun show_nat :: "nat \<Rightarrow> string" where
  "show_nat n = (if n < 10 then [digit n] else show_nat (n div 10) @ [digit (n mod 10)])"

declare show_nat.simps [simp del]

text \<open>
  The abstract operation ToString. A plain object renders as \<^verbatim>\<open>[object Object]\<close>,
  unless it carries an own property \<^verbatim>\<open>toString\<close>: a JSON value is never callable, so
  the conversion then throws a TypeError. An array joins its elements with commas,
  \<^verbatim>\<open>null\<close> and \<^verbatim>\<open>undefined\<close> elements rendering as the empty string.
\<close>

fun js_toString :: "jsval \<Rightarrow> js_error + string"
  and js_join :: "jsval list \<Rightarrow> js_error + string" where
  "js_toString JUndefined = Inr ''undefined''"
| "js_toString JNull = Inr ''null''"
| "js_toString (JBool b) = Inr (if b then ''true'' else ''false'')"
| "js_toString (JNum r) = Inr r"
| "js_toString (JStr s) = Inr s"
| "js_toString (JArr xs) = js_join xs"
| "js_toString (JObj kv) =
     (if map_of kv ''toString'' = None then Inr ''[object Object]'' else Inl TypeError)"
| "js_join [] = Inr []"
| "js_join (x # xs) =
     (case (if x = JUndefined \<or> x = JNull then Inr [] else js_toString x) of
        Inl e \<Rightarrow> Inl e
      | Inr s \<Rightarrow>
          (if xs = [] then Inr s
           else (case js_join xs of Inl e \<Rightarrow> Inl e | Inr t \<Rightarrow> Inr (s @ '','' @ t))))"

section \<open>The API client (src/services/api.ts)\<close>

subsection \<open>Responses and handleResponse\<close>

text \<open>
  A response as \<^verbatim>\<open>handleResponse\<close> sees it: the status code and what
  \<^verbatim>\<open>response.json()\<close> resolves to, \<open>None\<close> when it rejects (the body is absent or is
  not JSON).
\<close>

record response =
  status :: nat
  json :: "jsval option"

definition ok :: "response \<Rightarrow> bool" where
  "ok r = (200 \<le> status r \<and> status r \<le> 299)"

definition handleResponse :: "response \<Rightarrow> js_error + jsval" where
  "handleResponse r =
     (if \<not> ok r then
        (let errorData = (case json r of
                            None \<Rightarrow> JObj [(''detail'', JStr ''An unknown error occurred.'')]
                          | Some d \<Rightarrow> d)
         in case js_get errorData ''detail'' of
              Inl e \<Rightarrow> Inl e
            | Inr detail \<Rightarrow>
                (case js_toString (if truthy detail then detail
                                   else JStr (''HTTP error! status: '' @ show_nat (status r))) of
                   Inl e \<Rightarrow> Inl e
                 | Inr m \<Rightarrow> Inl (Error m)))
      else if status r = 204 then Inr JUndefined
      else (case json r of None \<Rightarrow> Inl SyntaxError | Some d \<Rightarrow> Inr d))"

subsection \<open>The platform and the world outside the program\<close>

text \<open>
  A request as it is handed to \<^verbatim>\<open>fetch\<close>. The body is the JavaScript value passed as
  \<^verbatim>\<open>body\<close> (\<open>JUndefined\<close> when the call gives none).
\<close>

record request =
  req_method :: string
  req_url :: string
  req_headers :: "(string \<times> string) list"
  req_body :: jsval

text \<open>
  What the program uses and does not define. \<open>fetch\<close> is the network with the backend
  behind it: from the backend's state and a request it gives either a rejection or a
  response, and the backend's next state. The other fields are the built-ins whose
  results the program only passes on: \<^verbatim>\<open>JSON.stringify\<close>,
  \<^verbatim>\<open>URLSearchParams.prototype.toString\<close>, \<^verbatim>\<open>new Date(v).getTime()\<close> (\<open>None\<close> for
  NaN, an invalid date) and \<^verbatim>\<open>toISOString\<close> of a valid time value.
\<close>

record 'b platform =
  fetch :: "'b \<Rightarrow> request \<Rightarrow> (js_error + response) \<times> 'b"
  JSON_stringify :: "jsval \<Rightarrow> jsval"
  URLSearchParams_toString :: "(string \<times> string) list \<Rightarrow> string"
  Date_getTime :: "jsval \<Rightarrow> int option"
  Date_toISOString :: "int \<Rightarrow> string"

text \<open>
  The world the program acts on: the device's \<^verbatim>\<open>localStorage\<close>, the backend, and three
  logs of what an observer sees: the requests issued, in order; the \<^verbatim>\<open>alert\<close> notices
  shown; and the content of \<^verbatim>\<open>localStorage\<close> after each write to it.
\<close>

record 'b world =
  localStorage :: "string \<rightharpoonup> string"
  backend :: 'b
  sent :: "request list"
  alerts :: "string list"
  observed :: "(string \<rightharpoonup> string) list"

definition setItem :: "string \<Rightarrow> string \<Rightarrow> 'b world \<Rightarrow> 'b world" where
  "setItem k v w =
     w\<lparr>localStorage := (localStorage w)(k \<mapsto> v),
       observed := observed w @ [(localStorage w)(k \<mapsto> v)]\<rparr>"

definition removeItem :: "string \<Rightarrow> 'b world \<Rightarrow> 'b world" where
  "removeItem k w =
     w\<lparr>localStorage := (localStorage w)(k := None),
       observed := observed w @ [(localStorage w)(k := None)]\<rparr>"

definition alert :: "string \<Rightarrow> 'b world \<Rightarrow> 'b world" where
  "alert m w = w\<lparr>alerts := alerts w @ [m]\<rparr>"

definition js_fetch :: "'b platform \<Rightarrow> request \<Rightarrow> 'b world \<Rightarrow> (js_error + response) \<times> 'b world" where
  "js_fetch P req w =
     (case fetch P (backend w) req of
        (r, b') \<Rightarrow> (r, w\<lparr>backend := b', sent := sent w @ [req]\<rparr>))"

subsection \<open>The API functions\<close>

definition API_URL :: string where
  "API_URL = ''http://localhost:8000''"

definition getAuthHeaders :: "'b world \<Rightarrow> (string \<times> string) list" where
  "getAuthHeaders w =
     (case localStorage w ''token'' of
        None \<Rightarrow> []
      | Some token \<Rightarrow> if token = [] then [] else [(''Authorization'', ''Bearer '' @ token)])"

definition api_getMe :: "'b platform \<Rightarrow> 'b world \<Rightarrow> (js_error + jsval) \<times> 'b world" where
  "api_getMe P w =
     (case js_fetch P \<lparr>req_method = ''GET'', req_url = API_URL @ ''/users/me'',
                       req_headers = getAuthHeaders w, req_body = JUndefined\<rparr> w of
        (Inl e, w1) \<Rightarrow> (Inl e, w1)
      | (Inr response, w1) \<Rightarrow> (handleResponse response, w1))"

text \<open>
  \<^verbatim>\<open>localStorage.setItem\<close> converts its argument to a string first; the conversion of
  the token is the only one that can throw, and it does so before anything is stored.
  \<^verbatim>\<open>JSON.stringify(user)\<close> is \<^verbatim>\<open>undefined\<close> when \<^verbatim>\<open>user\<close> is, which is stored as
  the string \<^verbatim>\<open>undefined\<close>.
\<close>

definition api_login ::
  "'b platform \<Rightarrow> string \<Rightarrow> string \<Rightarrow> 'b world \<Rightarrow> (js_error + jsval \<times> jsval) \<times> 'b world" where
  "api_login P email password w =
     (let formData = [(''username'', email), (''password'', password)] in
      case js_fetch P \<lparr>req_method = ''POST'', req_url = API_URL @ ''/login'',
                        req_headers = [(''Content-Type'', ''application/x-www-form-urlencoded'')],
                        req_body = JStr (URLSearchParams_toString P formData)\<rparr> w of
        (Inl e, w1) \<Rightarrow> (Inl e, w1)
      | (Inr response, w1) \<Rightarrow>
          (case handleResponse response of
             Inl e \<Rightarrow> (Inl e, w1)
           | Inr data \<Rightarrow>
               (case js_get data ''access_token'' of
                  Inl e \<Rightarrow> (Inl e, w1)
                | Inr token \<Rightarrow>
                    (case js_toString token of
                       Inl e \<Rightarrow> (Inl e, w1)
                     | Inr tokenString \<Rightarrow>
                         (case api_getMe P (setItem ''token'' tokenString w1) of
                            (Inl e, w2) \<Rightarrow> (Inl e, w2)
                          | (Inr user, w2) \<Rightarrow>
                              (case js_toString (JSON_stringify P user) of
                                 Inl e \<Rightarrow> (Inl e, w2)
                               | Inr userString \<Rightarrow>
                                   (Inr (user, token), setItem ''user'' userString w2)))))))"

definition api_signup ::
  "'b platform \<Rightarrow> string \<Rightarrow> string \<Rightarrow> string \<Rightarrow> 'b world \<Rightarrow> (js_error + jsval \<times> jsval) \<times> 'b world" where
  "api_signup P username email password w =
     (case js_fetch P \<lparr>req_method = ''POST'', req_url = API_URL @ ''/signup'',
                       req_headers = [(''Content-Type'', ''application/json'')],
                       req_body = JSON_stringify P (JObj [(''username'', JStr username),
                                                          (''email'', JStr email),
                                                          (''password'', JStr password)])\<rparr> w of
        (Inl e, w1) \<Rightarrow> (Inl e, w1)
      | (Inr response, w1) \<Rightarrow>
          (case handleResponse response of
             Inl e \<Rightarrow> (Inl e, w1)
           | Inr _ \<Rightarrow> api_login P email password w1))"

text \<open>
  The callback of \<^verbatim>\<open>notesData.map\<close>: the note's own properties are copied (a spread
  copies nothing from a primitive, and the indexed elements of an array or a string),
  then both dates are read, converted and written. \<^verbatim>\<open>new Date(v)\<close> first converts
  an object or an array to a primitive, which is its string and can throw as ToString
  does; \<^verbatim>\<open>toISOString\<close> throws a RangeError on an invalid date.
\<close>

definition spread :: "jsval \<Rightarrow> obj" where
  "spread v =
     (case v of
        JObj kv \<Rightarrow> kv
      | JArr xs \<Rightarrow> zip (map show_nat [0..<length xs]) xs
      | JStr s \<Rightarrow> zip (map show_nat [0..<length s]) (map (\<lambda>c. JStr [c]) s)
      | _ \<Rightarrow> [])"

definition js_toPrimitive :: "jsval \<Rightarrow> js_error + jsval" where
  "js_toPrimitive v =
     (case v of
        JObj kv \<Rightarrow> (case js_toString v of Inl e \<Rightarrow> Inl e | Inr s \<Rightarrow> Inr (JStr s))
      | JArr xs \<Rightarrow> (case js_toString v of Inl e \<Rightarrow> Inl e | Inr s \<Rightarrow> Inr (JStr s))
      | _ \<Rightarrow> Inr v)"

definition new_Date_toISOString :: "'b platform \<Rightarrow> jsval \<Rightarrow> js_error + string" where
  "new_Date_toISOString P v =
     (case js_toPrimitive v of
        Inl e \<Rightarrow> Inl e
      | Inr p \<Rightarrow>
          (case Date_getTime P p of
             None \<Rightarrow> Inl RangeError
           | Some t \<Rightarrow> Inr (Date_toISOString P t)))"

definition normalize_note :: "'b platform \<Rightarrow> jsval \<Rightarrow> js_error + obj" where
  "normalize_note P note =
     (case js_get note ''last_update'' of
        Inl e \<Rightarrow> Inl e
      | Inr lu \<Rightarrow>
          (case new_Date_toISOString P lu of
             Inl e \<Rightarrow> Inl e
           | Inr last_update \<Rightarrow>
               (case js_get note ''created_on'' of
                  Inl e \<Rightarrow> Inl e
                | Inr co \<Rightarrow>
                    (case new_Date_toISOString P co of
                       Inl e \<Rightarrow> Inl e
                     | Inr created_on \<Rightarrow>
                         Inr (obj_set ''created_on'' (JStr created_on)
                               (obj_set ''last_update'' (JStr last_update) (spread note)))))))"

text \<open>\<^verbatim>\<open>Array.prototype.map\<close> with a callback that may throw: the first throw ends it.\<close>

fun map_notes :: "'b platform \<Rightarrow> jsval list \<Rightarrow> js_error + obj list" where
  "map_notes P [] = Inr []"
| "map_notes P (x # xs) =
     (case normalize_note P x of
        Inl e \<Rightarrow> Inl e
      | Inr n \<Rightarrow> (case map_notes P xs of Inl e \<Rightarrow> Inl e | Inr ns \<Rightarrow> Inr (n # ns)))"

text \<open>Only an array has a callable \<^verbatim>\<open>map\<close>; on any other JSON value the call throws a TypeError.\<close>

definition api_getNotesForUser :: "'b platform \<Rightarrow> 'b world \<Rightarrow> (js_error + obj list) \<times> 'b world" where
  "api_getNotesForUser P w =
     (case js_fetch P \<lparr>req_method = ''GET'', req_url = API_URL @ ''/notes'',
                       req_headers = getAuthHeaders w, req_body = JUndefined\<rparr> w of
        (Inl e, w1) \<Rightarrow> (Inl e, w1)
      | (Inr response, w1) \<Rightarrow>
          (case handleResponse response of
             Inl e \<Rightarrow> (Inl e, w1)
           | Inr notesData \<Rightarrow>
               (case notesData of
                  JArr xs \<Rightarrow> (map_notes P xs, w1)
                | _ \<Rightarrow> (Inl TypeError, w1))))"

definition api_createNote ::
  "'b platform \<Rightarrow> jsval \<Rightarrow> jsval \<Rightarrow> 'b world \<Rightarrow> (js_error + jsval) \<times> 'b world" where
  "api_createNote P title content w =
     (case js_fetch P \<lparr>req_method = ''POST'', req_url = API_URL @ ''/notes'',
                       req_headers = (''Content-Type'', ''application/json'') # getAuthHeaders w,
                       req_body = JSON_stringify P (JObj [(''title'', title),
                                                          (''content'', content)])\<rparr> w of
        (Inl e, w1) \<Rightarrow> (Inl e, w1)
      | (Inr response, w1) \<Rightarrow> (handleResponse response, w1))"

text \<open>
  The note id is interpolated into the URL, which converts it to a string. The title and
  the content are whatever the editor holds: the text typed by the user, or the value
  the backend sent for the note being edited.
\<close>

definition api_updateNote ::
  "'b platform \<Rightarrow> jsval \<Rightarrow> jsval \<Rightarrow> jsval \<Rightarrow> 'b world \<Rightarrow> (js_error + jsval) \<times> 'b world" where
  "api_updateNote P noteId title content w =
     (case js_toString noteId of
        Inl e \<Rightarrow> (Inl e, w)
      | Inr idString \<Rightarrow>
          (case js_fetch P \<lparr>req_method = ''PUT'', req_url = API_URL @ ''/notes/'' @ idString,
                            req_headers = (''Content-Type'', ''application/json'') # getAuthHeaders w,
                            req_body = JSON_stringify P (JObj [(''title'', title),
                                                               (''content'', content)])\<rparr> w of
             (Inl e, w1) \<Rightarrow> (Inl e, w1)
           | (Inr response, w1) \<Rightarrow> (handleResponse response, w1)))"

definition api_deleteNote :: "'b platform \<Rightarrow> jsval \<Rightarrow> 'b world \<Rightarrow> (js_error + unit) \<times> 'b world" where
  "api_deleteNote P noteId w =
     (case js_toString noteId of
        Inl e \<Rightarrow> (Inl e, w)
      | Inr idString \<Rightarrow>
          (case js_fetch P \<lparr>req_method = ''DELETE'', req_url = API_URL @ ''/notes/'' @ idString,
                            req_headers = getAuthHeaders w, req_body = JUndefined\<rparr> w of
             (Inl e, w1) \<Rightarrow> (Inl e, w1)
           | (Inr response, w1) \<Rightarrow>
               (case handleResponse response of Inl e \<Rightarrow> (Inl e, w1) | Inr _ \<Rightarrow> (Inr (), w1))))"

section \<open>The authentication provider (App.tsx)\<close>

record auth =
  auth_user :: jsval
  auth_token :: jsval
  auth_isLoading :: bool

definition AuthProvider_init :: auth where
  "AuthProvider_init = \<lparr>auth_user = JNull, auth_token = JNull, auth_isLoading = True\<rparr>"

definition isAuthenticated :: "auth \<Rightarrow> bool" where
  "isAuthenticated a = truthy (auth_user a)"

text \<open>
  \<^verbatim>\<open>initAuth\<close>, run once when the provider mounts. Everything after \<^verbatim>\<open>api.getMe()\<close>
  is inside the \<^verbatim>\<open>try\<close>, so a throw while the user is serialised for storage
  happens after \<^verbatim>\<open>setUser\<close> and \<^verbatim>\<open>setToken\<close> and is caught by the same handler.
  The handler's \<^verbatim>\<open>console.error\<close> has no effect on the state and is left out.
\<close>

definition initAuth :: "'b platform \<Rightarrow> auth \<Rightarrow> 'b world \<Rightarrow> auth \<times> 'b world" where
  "initAuth P a w =
     (case localStorage w ''token'' of
        None \<Rightarrow> (a\<lparr>auth_isLoading := False\<rparr>, w)
      | Some storedToken \<Rightarrow>
          if storedToken = [] then (a\<lparr>auth_isLoading := False\<rparr>, w)
          else
            (case api_getMe P w of
               (Inr currentUser, w1) \<Rightarrow>
                 (case js_toString (JSON_stringify P currentUser) of
                    Inr userString \<Rightarrow>
                      (a\<lparr>auth_user := currentUser, auth_token := JStr storedToken,
                         auth_isLoading := False\<rparr>,
                       setItem ''user'' userString w1)
                  | Inl e \<Rightarrow>
                      (a\<lparr>auth_user := currentUser, auth_token := JStr storedToken,
                         auth_isLoading := False\<rparr>,
                       removeItem ''token'' (removeItem ''user'' w1)))
             | (Inl e, w1) \<Rightarrow>
                 (a\<lparr>auth_isLoading := False\<rparr>,
                  removeItem ''token'' (removeItem ''user'' w1))))"

definition login ::
  "'b platform \<Rightarrow> string \<Rightarrow> string \<Rightarrow> auth \<Rightarrow> 'b world \<Rightarrow> (js_error + unit) \<times> auth \<times> 'b world" where
  "login P email password a w =
     (case api_login P email password w of
        (Inl e, w1) \<Rightarrow> (Inl e, a, w1)
      | (Inr (user, token), w1) \<Rightarrow> (Inr (), a\<lparr>auth_user := user, auth_token := token\<rparr>, w1))"

definition signup ::
  "'b platform \<Rightarrow> string \<Rightarrow> string \<Rightarrow> string \<Rightarrow> auth \<Rightarrow> 'b world
     \<Rightarrow> (js_error + unit) \<times> auth \<times> 'b world" where
  "signup P username email password a w =
     (case api_signup P username email password w of
        (Inl e, w1) \<Rightarrow> (Inl e, a, w1)
      | (Inr (user, token), w1) \<Rightarrow> (Inr (), a\<lparr>auth_user := user, auth_token := token\<rparr>, w1))"

definition logout :: "auth \<Rightarrow> 'b world \<Rightarrow> auth \<times> 'b world" where
  "logout a w =
     (a\<lparr>auth_user := JNull, auth_token := JNull\<rparr>,
      removeItem ''token'' (removeItem ''user'' w))"

section \<open>The notes page (src/components/HomePage.tsx)\<close>

text \<open>The page's state; \<open>h_notes\<close> is the state variable \<^verbatim>\<open>notes\<close>, the published list.\<close>

record home =
  h_notes :: "obj list"
  isLoading :: bool
  error :: "string option"
  isModalOpen :: bool
  editingNote :: "obj option"

definition HomePage_init :: home where
  "HomePage_init =
     \<lparr>h_notes = [], isLoading = True, error = None, isModalOpen = False, editingNote = None\<rparr>"

text \<open>
  The comparator handed to \<^verbatim>\<open>sort\<close>: the difference of the two times, \<open>None\<close> when
  it is NaN (one of the dates is invalid). \<^verbatim>\<open>sort\<close> uses the sign of the result only,
  which the rounding of the floating-point subtraction preserves. The page applies it to
  the notes \<^verbatim>\<open>getNotesForUser\<close> returns, whose \<^verbatim>\<open>last_update\<close> is a string.
\<close>

definition compare_notes :: "'b platform \<Rightarrow> obj \<Rightarrow> obj \<Rightarrow> int option" where
  "compare_notes P a b =
     (case Date_getTime P (obj_get b ''last_update'') of
        None \<Rightarrow> None
      | Some tb \<Rightarrow>
          (case Date_getTime P (obj_get a ''last_update'') of
             None \<Rightarrow> None
           | Some ta \<Rightarrow> Some (tb - ta)))"

text \<open>
  \<^verbatim>\<open>Array.prototype.sort\<close> with a comparator. The language defines it as stable, and a
  NaN from the comparator counts as zero. For a consistent comparator the result is
  the one stably sorted rearrangement, which stable insertion computes: \<open>x\<close>, which
  stood before the elements of \<open>ys\<close>, goes in front of the first \<open>y\<close> it does not
  have to follow.
\<close>

fun insert_sorted :: "('a \<Rightarrow> 'a \<Rightarrow> int option) \<Rightarrow> 'a \<Rightarrow> 'a list \<Rightarrow> 'a list" where
  "insert_sorted c x [] = [x]"
| "insert_sorted c x (y # ys) =
     (if (case c x y of None \<Rightarrow> 0 | Some v \<Rightarrow> v) \<le> 0 then x # y # ys
      else y # insert_sorted c x ys)"

definition Array_sort :: "('a \<Rightarrow> 'a \<Rightarrow> int option) \<Rightarrow> 'a list \<Rightarrow> 'a list" where
  "Array_sort c xs = foldr (insert_sorted c) xs []"

text \<open>\<^verbatim>\<open>fetchNotes\<close> is the controller's refresh; \<open>user\<close> is the user of the auth context.\<close>

definition fetchNotes :: "'b platform \<Rightarrow> jsval \<Rightarrow> home \<Rightarrow> 'b world \<Rightarrow> home \<times> 'b world" where
  "fetchNotes P user h w =
     (if \<not> truthy user then (h, w)
      else
        (case api_getNotesForUser P w of
           (Inr userNotes, w1) \<Rightarrow>
             (h\<lparr>isLoading := True, h_notes := Array_sort (compare_notes P) userNotes,
                isLoading := False\<rparr>, w1)
         | (Inl err, w1) \<Rightarrow>
             (h\<lparr>isLoading := True, error := Some ''Failed to fetch notes.'',
                isLoading := False\<rparr>, w1)))"

definition openAddModal :: "home \<Rightarrow> home" where
  "openAddModal h = h\<lparr>editingNote := None, isModalOpen := True\<rparr>"

definition openEditModal :: "obj \<Rightarrow> home \<Rightarrow> home" where
  "openEditModal note h = h\<lparr>editingNote := Some note, isModalOpen := True\<rparr>"

definition closeModal :: "home \<Rightarrow> home" where
  "closeModal h = h\<lparr>isModalOpen := False, editingNote := None\<rparr>"

definition handleSaveNote ::
  "'b platform \<Rightarrow> jsval \<Rightarrow> jsval \<Rightarrow> jsval \<Rightarrow> home \<Rightarrow> 'b world \<Rightarrow> home \<times> 'b world" where
  "handleSaveNote P user title content h w =
     (if \<not> truthy user then (h, w)
      else
        (case (case editingNote h of
                 Some note \<Rightarrow> api_updateNote P (obj_get note ''id'') title content w
               | None \<Rightarrow> api_createNote P title content w) of
           (Inl err, w1) \<Rightarrow> (h, alert ''Failed to save note.'' w1)
         | (Inr _, w1) \<Rightarrow>
             (case fetchNotes P user h w1 of (h2, w2) \<Rightarrow> (closeModal h2, w2))))"

text \<open>
  \<open>confirmDelete\<close> is the user's answer to the \<^verbatim>\<open>window.confirm\<close> of this handler;
  the dialog is shown only when an edited note is present.
\<close>

definition handleDeleteNote ::
  "'b platform \<Rightarrow> jsval \<Rightarrow> bool \<Rightarrow> home \<Rightarrow> 'b world \<Rightarrow> home \<times> 'b world" where
  "handleDeleteNote P user confirmDelete h w =
     (case editingNote h of
        None \<Rightarrow> (h, w)
      | Some note \<Rightarrow>
          if \<not> confirmDelete then (h, w)
          else
            (case api_deleteNote P (obj_get note ''id'') w of
               (Inl err, w1) \<Rightarrow> (h, alert ''Failed to delete note. Please try again.'' w1)
             | (Inr _, w1) \<Rightarrow>
                 (case fetchNotes P user h w1 of (h2, w2) \<Rightarrow> (closeModal h2, w2))))"

subsection \<open>The editor (NoteModal)\<close>

text \<open>
  The editor's own state. The page passes \<^verbatim>\<open>onDelete\<close> only while a note is being
  edited, so \<^verbatim>\<open>onDelete && window.confirm(...)\<close> asks the user exactly then;
  \<open>confirmModal\<close> is the answer. Both handlers of the page catch every error, so the
  \<^verbatim>\<open>finally\<close> of \<^verbatim>\<open>handleDelete\<close> and the last statement of \<^verbatim>\<open>handleSave\<close> always run.
\<close>

record modal =
  m_title :: jsval
  m_content :: jsval
  isSaving :: bool
  isDeleting :: bool

definition handleSave ::
  "'b platform \<Rightarrow> jsval \<Rightarrow> modal \<Rightarrow> home \<Rightarrow> 'b world \<Rightarrow> modal \<times> home \<times> 'b world" where
  "handleSave P user m h w =
     (case handleSaveNote P user (m_title m) (m_content m) h w of
        (h1, w1) \<Rightarrow> (m\<lparr>isSaving := True, isSaving := False\<rparr>, h1, w1))"

definition handleDelete ::
  "'b platform \<Rightarrow> jsval \<Rightarrow> bool \<Rightarrow> bool \<Rightarrow> modal \<Rightarrow> home \<Rightarrow> 'b world \<Rightarrow> modal \<times> home \<times> 'b world" where
  "handleDelete P user confirmModal confirmDelete m h w =
     (if editingNote h \<noteq> None \<and> confirmModal then
        (case handleDeleteNote P user confirmDelete h w of
           (h1, w1) \<Rightarrow> (m\<lparr>isDeleting := True, isDeleting := False\<rparr>, h1, w1))
      else (m, h, w))"

section \<open>Notions used by the properties\<close>

text \<open>The time a note's \<^verbatim>\<open>last_update\<close> stands for, as the comparator reads it.\<close>

definition last_update_time :: "'b platform \<Rightarrow> obj \<Rightarrow> int option" where
  "last_update_time P n = Date_getTime P (obj_get n ''last_update'')"

text \<open>
  A platform on which the string \<^verbatim>\<open>toISOString\<close> gives is itself a valid date, as the
  language guarantees for \<^verbatim>\<open>Date\<close>.
\<close>

definition iso_dates_parse :: "'b platform \<Rightarrow> bool" where
  "iso_dates_parse P =
     (\<forall>v t. Date_getTime P v = Some t \<longrightarrow> Date_getTime P (JStr (Date_toISOString P t)) \<noteq> None)"

text \<open>The key the published list is ordered by: later updates first.\<close>

definition recency :: "'b platform \<Rightarrow> obj \<Rightarrow> int" where
  "recency P n = - the (last_update_time P n)"

text \<open>The request a refresh issues, and the call that a save makes first.\<close>

definition notes_request :: "'b world \<Rightarrow> request" where
  "notes_request w =
     \<lparr>req_method = ''GET'', req_url = API_URL @ ''/notes'',
      req_headers = getAuthHeaders w, req_body = JUndefined\<rparr>"

definition saveCall ::
  "'b platform \<Rightarrow> jsval \<Rightarrow> jsval \<Rightarrow> home \<Rightarrow> 'b world \<Rightarrow> (js_error + jsval) \<times> 'b world" where
  "saveCall P title content h w =
     (case editingNote h of
        Some note \<Rightarrow> api_updateNote P (obj_get note ''id'') title content w
      | None \<Rightarrow> api_createNote P title content w)"

text \<open>The error a call ended with, if it did.\<close>

definition failure :: "'e + 'a \<Rightarrow> 'e option" where
  "failure r = (case r of Inl e \<Rightarrow> Some e | Inr v \<Rightarrow> None)"

text \<open>
  A call of the API client, with outcome \<open>out\<close> from the world \<open>w\<close>, issued
  exactly the request \<open>req\<close>, which carries no \<^verbatim>\<open>Authorization\<close> header, and reported
  what came back: the rejection of the \<^verbatim>\<open>fetch\<close>, or the error \<^verbatim>\<open>handleResponse\<close>
  makes of a non-2xx response.
\<close>

definition sends_unauthenticated ::
  "'b platform \<Rightarrow> 'b world \<Rightarrow> request \<Rightarrow> (js_error + 'a) \<times> 'b world \<Rightarrow> bool" where
  "sends_unauthenticated P w req out =
     (sent (snd out) = sent w @ [req]
      \<and> map_of (req_headers req) ''Authorization'' = None
      \<and> (case fst (fetch P (backend w) req) of
           Inl e \<Rightarrow> failure (fst out) = Some e
         | Inr resp \<Rightarrow>
             \<not> ok resp \<longrightarrow>
               failure (fst out) \<noteq> None \<and> failure (fst out) = failure (handleResponse resp)))"

text \<open>The invariant of the persisted session: no stored user without a stored token.\<close>

definition session_inv :: "(string \<rightharpoonup> string) \<Rightarrow> bool" where
  "session_inv s = (s ''token'' = None \<longrightarrow> s ''user'' = None)"

definition session_ok :: "'b world \<Rightarrow> bool" where
  "session_ok w = (session_inv (localStorage w) \<and> list_all session_inv (observed w))"

definition fresh_world :: "'b \<Rightarrow> 'b world" where
  "fresh_world b =
     \<lparr>localStorage = Map.empty, backend = b, sent = [], alerts = [], observed = []\<rparr>"

text \<open>
  The states the authentication provider can be in: it starts on a device with empty
  storage, and from then on the page is reloaded (the provider's state is lost, the
  storage stays), the startup validation runs, the user logs in, signs up or logs out,
  and the backend changes under other clients.
\<close>

inductive reachable :: "'b platform \<Rightarrow> auth \<times> 'b world \<Rightarrow> bool" for P :: "'b platform" where
  start: "reachable P (AuthProvider_init, fresh_world b)"
| reload: "reachable P (a, w) \<Longrightarrow> reachable P (AuthProvider_init, w)"
| elsewhere: "reachable P (a, w) \<Longrightarrow> reachable P (a, w\<lparr>backend := b\<rparr>)"
| startup: "reachable P (a, w) \<Longrightarrow> reachable P (initAuth P a w)"
| logged_in: "reachable P (a, w) \<Longrightarrow> reachable P (snd (login P email password a w))"
| signed_up: "reachable P (a, w) \<Longrightarrow> reachable P (snd (signup P username email password a w))"
| logged_out: "reachable P (a, w) \<Longrightarrow> reachable P (logout a w)"

section \<open>A concrete platform for running the program\<close>

text \<open>
  A backend given by a table from method and URL to the response; a request outside
  the table fails in the network, where \<^verbatim>\<open>fetch\<close> rejects with a TypeError.
\<close>

definition table_fetch ::
  "((string \<times> string) \<times> response) list \<Rightarrow> unit \<Rightarrow> request \<Rightarrow> (js_error + response) \<times> unit" where
  "table_fetch table b req =
     (case map_of table (req_method req, req_url req) of
        None \<Rightarrow> (Inl TypeError, b)
      | Some r \<Rightarrow> (Inr r, b))"

text \<open>\<^verbatim>\<open>JSON.stringify\<close> for values whose strings need no escaping.\<close>

definition quoted :: "string \<Rightarrow> string" where
  "quoted s = CHR 0x22 # s @ [CHR 0x22]"

fun render :: "jsval \<Rightarrow> string"
  and render_items :: "jsval list \<Rightarrow> string"
  and render_props :: "(string \<times> jsval) list \<Rightarrow> string" where
  "render JUndefined = ''null''"
| "render JNull = ''null''"
| "render (JBool b) = (if b then ''true'' else ''false'')"
| "render (JNum r) = r"
| "render (JStr s) = quoted s"
| "render (JArr xs) = ''['' @ render_items xs @ '']''"
| "render (JObj kv) = ''{'' @ render_props kv @ ''}''"
| "render_items [] = []"
| "render_items (x # xs) = render x @ (if xs = [] then [] else '','' @ render_items xs)"
| "render_props [] = []"
| "render_props ((k, v) # ps) =
     quoted k @ '':'' @ render v @ (if ps = [] then [] else '','' @ render_props ps)"

definition demo_stringify :: "jsval \<Rightarrow> jsval" where
  "demo_stringify v = (if v = JUndefined then JUndefined else JStr (render v))"

text \<open>A \<^verbatim>\<open>Date\<close> that knows three instants, in milliseconds since the epoch.\<close>

definition demo_getTime :: "jsval \<Rightarrow> int option" where
  "demo_getTime v =
     (if v = JStr ''2024-01-01T00:00:00.000Z'' \<or> v = JStr ''2024-01-01'' then Some 1704067200000
      else if v = JStr ''2024-01-02T00:00:00.000Z'' \<or> v = JStr ''2024-01-02'' then Some 1704153600000
      else if v = JStr ''2024-01-03T00:00:00.000Z'' \<or> v = JStr ''2024-01-03'' then Some 1704240000000
      else None)"

definition demo_toISOString :: "int \<Rightarrow> string" where
  "demo_toISOString t =
     (if t = 1704067200000 then ''2024-01-01T00:00:00.000Z''
      else if t = 1704153600000 then ''2024-01-02T00:00:00.000Z''
      else ''2024-01-03T00:00:00.000Z'')"

fun demo_form :: "(string \<times> string) list \<Rightarrow> string" where
  "demo_form [] = []"
| "demo_form ((k, v) # ps) = k @ ''='' @ v @ (if ps = [] then [] else ''&'' @ demo_form ps)"

definition demo_platform :: "((string \<times> string) \<times> response) list \<Rightarrow> unit platform" where
  "demo_platform table =
     \<lparr>fetch = table_fetch table,
      JSON_stringify = demo_stringify,
      URLSearchParams_toString = demo_form,
      Date_getTime = demo_getTime,
      Date_toISOString = demo_toISOString\<rparr>"

text \<open>Responses of a backend, and a device that still holds an expired session.\<close>

definition login_ok :: "(string \<times> string) \<times> response" where
  "login_ok =
     ((''POST'', ''http://localhost:8000/login''),
      \<lparr>status = 200, json = Some (JObj [(''access_token'', JStr ''tok'')])\<rparr>)"

definition signup_ok :: "(string \<times> string) \<times> response" where
  "signup_ok =
     ((''POST'', ''http://localhost:8000/signup''),
      \<lparr>status = 200, json = Some (JObj [(''username'', JStr ''alice''),
                                         (''email'', JStr ''alice@x.com'')])\<rparr>)"

definition me_ok :: "(string \<times> string) \<times> response" where
  "me_ok =
     ((''GET'', ''http://localhost:8000/users/me''),
      \<lparr>status = 200, json = Some (JObj [(''id'', JStr ''1''), (''username'', JStr ''alice''),
                                         (''email'', JStr ''alice@x.com'')])\<rparr>)"

definition me_unauthorized :: "(string \<times> string) \<times> response" where
  "me_unauthorized =
     ((''GET'', ''http://localhost:8000/users/me''),
      \<lparr>status = 401, json = Some (JObj [(''detail'', JStr ''Could not validate credentials'')])\<rparr>)"

definition me_down :: "(string \<times> string) \<times> response" where
  "me_down = ((''GET'', ''http://localhost:8000/users/me''), \<lparr>status = 500, json = None\<rparr>)"

definition backend_note :: "string \<Rightarrow> string \<Rightarrow> jsval" where
  "backend_note i day =
     JObj [(''id'', JStr i), (''last_update'', JStr day), (''created_on'', JStr ''2024-01-01'')]"

definition fetched_note :: "string \<Rightarrow> string \<Rightarrow> obj" where
  "fetched_note i day =
     [(''id'', JStr i), (''last_update'', JStr (day @ ''T00:00:00.000Z'')),
      (''created_on'', JStr ''2024-01-01T00:00:00.000Z'')]"

definition notes_ok :: "(string \<times> string) \<times> response" where
  "notes_ok =
     ((''GET'', ''http://localhost:8000/notes''),
      \<lparr>status = 200, json = Some (JArr [backend_note ''a'' ''2024-01-02'',
                                         backend_note ''b'' ''2024-01-03'',
                                         backend_note ''c'' ''2024-01-02''])\<rparr>)"

definition alice :: jsval where
  "alice = JObj [(''id'', JStr ''1''), (''username'', JStr ''alice''), (''email'', JStr ''alice@x.com'')]"

definition stale_world :: "unit world" where
  "stale_world =
     \<lparr>localStorage = [''token'' \<mapsto> ''expired'', ''user'' \<mapsto> ''{}''], backend = (),
      sent = [], alerts = [], observed = []\<rparr>"

definition editing :: home where
  "editing = HomePage_init\<lparr>isLoading := False, isModalOpen := True,
                           editingNote := Some (fetched_note ''a'' ''2024-01-02'')\<rparr>"

definition typed :: modal where
  "typed = \<lparr>m_title = JStr ''Groceries'', m_content = JStr ''milk, eggs'',
            isSaving = False, isDeleting = False\<rparr>"

lemmas run_defs =
  login_def signup_def api_login_def api_signup_def api_getMe_def api_getNotesForUser_def
  api_createNote_def api_updateNote_def api_deleteNote_def js_fetch_def
  demo_platform_def table_fetch_def fresh_world_def stale_world_def API_URL_def
  handleResponse_def ok_def obj_get_def setItem_def removeItem_def alert_def
  getAuthHeaders_def AuthProvider_init_def HomePage_init_def
  login_ok_def signup_ok_def me_ok_def me_unauthorized_def me_down_def notes_ok_def
  backend_note_def fetched_note_def alice_def editing_def typed_def
  demo_stringify_def quoted_def demo_getTime_def demo_toISOString_def
  normalize_note_def new_Date_toISOString_def js_toPrimitive_def spread_def

section \<open>Frame lemmas\<close>

lemma handleResponse_not_ok: "\<not> ok r \<Longrightarrow> \<exists>e. handleResponse r = Inl e"
  by (auto simp: handleResponse_def Let_def split: option.splits sum.splits)

lemma js_fetch_storage:
  "js_fetch P req w = (r, w1) \<Longrightarrow> localStorage w1 = localStorage w \<and> observed w1 = observed w"
  by (auto simp: js_fetch_def split: prod.splits)

lemma api_getMe_storage:
  "api_getMe P w = (r, w1) \<Longrightarrow> localStorage w1 = localStorage w \<and> observed w1 = observed w"
  by (auto simp: api_getMe_def js_fetch_def split: prod.splits sum.splits)

lemma api_getNotesForUser_result:
  "fst (api_getNotesForUser P w) =
     (case fst (fetch P (backend w) (notes_request w)) of
        Inl e \<Rightarrow> Inl e
      | Inr response \<Rightarrow>
          (case handleResponse response of
             Inl e \<Rightarrow> Inl e
           | Inr notesData \<Rightarrow> (case notesData of JArr xs \<Rightarrow> map_notes P xs | _ \<Rightarrow> Inl TypeError)))"
  by (simp add: api_getNotesForUser_def js_fetch_def notes_request_def
      split: prod.splits sum.splits jsval.splits)

lemma api_getNotesForUser_world:
  "snd (api_getNotesForUser P w) =
     w\<lparr>backend := snd (fetch P (backend w) (notes_request w)), sent := sent w @ [notes_request w]\<rparr>"
  by (simp add: api_getNotesForUser_def js_fetch_def notes_request_def
      split: prod.splits sum.splits jsval.splits)

lemma fetchNotes_truthy:
  "truthy user \<Longrightarrow> snd (fetchNotes P user h w) = snd (api_getNotesForUser P w)"
  by (simp add: fetchNotes_def split: prod.splits sum.splits)

lemma fetchNotes_localStorage: "localStorage (snd (fetchNotes P user h w)) = localStorage w"
  by (cases "truthy user") (simp_all add: fetchNotes_truthy api_getNotesForUser_world, simp add: fetchNotes_def)

lemma fetchNotes_notes:
  "h_notes (fst (fetchNotes P user h w)) =
     (if truthy user then
        (case fst (api_getNotesForUser P w) of
           Inr userNotes \<Rightarrow> Array_sort (compare_notes P) userNotes
         | Inl e \<Rightarrow> h_notes h)
      else h_notes h)"
  by (simp add: fetchNotes_def split: prod.splits sum.splits)

lemma saveCall_alerts: "alerts (snd (saveCall P title content h w)) = alerts w"
  by (simp add: saveCall_def api_createNote_def api_updateNote_def js_fetch_def
      split: option.splits prod.splits sum.splits)

section \<open>Error messages of the API client\<close>

text \<open>
  C4, as stated: every non-2xx response gives a failure whose message is the structured
  message of the body when there is one, and the generic "HTTP error, status <code>" when
  the body is absent or unparseable. This fails on a 500 response without a body: the
  handler that catches the failed parse supplies a \<^verbatim>\<open>detail\<close> of its own, so the
  message is a fixed text that does not contain the status code.
\<close>

theorem handleResponse_absent_body_counterexample:
  "handleResponse \<lparr>status = 500, json = None\<rparr> = Inl (Error ''An unknown error occurred.'')
   \<and> handleResponse \<lparr>status = 500, json = None\<rparr>
       \<noteq> Inl (Error (''HTTP error! status: '' @ show_nat 500))"
  by (simp add: handleResponse_def ok_def obj_get_def)

text \<open>
  C4, amended: every non-2xx response gives a failure. Its message is the \<^verbatim>\<open>detail\<close> of
  the body when the body parses and carries a non-empty string there; it is the fixed
  text "An unknown error occurred." when the body is absent or unparseable; and it is
  "HTTP error! status: <code>", with the status code in decimal, when the body parses
  to a value other than \<^verbatim>\<open>null\<close> whose \<^verbatim>\<open>detail\<close> is missing or falsy.
\<close>

theorem handleResponse_failure:
  assumes "\<not> ok r"
  shows "(\<exists>e. handleResponse r = Inl e)
    \<and> (json r = None \<longrightarrow> handleResponse r = Inl (Error ''An unknown error occurred.''))
    \<and> (\<forall>d s. json r = Some d \<and> js_get d ''detail'' = Inr (JStr s) \<and> s \<noteq> []
           \<longrightarrow> handleResponse r = Inl (Error s))
    \<and> (\<forall>d v. json r = Some d \<and> js_get d ''detail'' = Inr v \<and> \<not> truthy v
           \<longrightarrow> handleResponse r = Inl (Error (''HTTP error! status: '' @ show_nat (status r))))"
  using assms
  by (auto simp: handleResponse_def obj_get_def Let_def split: option.splits sum.splits)

theorem handleResponse_failure_witness:
  "\<not> ok \<lparr>status = 404, json = Some (JObj [])\<rparr>
   \<and> handleResponse \<lparr>status = 404, json = Some (JObj [])\<rparr>
       = Inl (Error ''HTTP error! status: 404'')
   \<and> handleResponse
        \<lparr>status = 401, json = Some (JObj [(''detail'', JStr ''Incorrect email or password'')])\<rparr>
       = Inl (Error ''Incorrect email or password'')"
proof -
  have h1: "\<not> ok \<lparr>status = 404, json = Some (JObj [])\<rparr>"
    by (simp add: ok_def)
  have h2: "\<not> ok \<lparr>status = 401,
                   json = Some (JObj [(''detail'', JStr ''Incorrect email or password'')])\<rparr>"
    by (simp add: ok_def)
  have n: "show_nat 404 = ''404''"
    by (simp add: show_nat.simps digit_def)
  from handleResponse_failure [OF h1] handleResponse_failure [OF h2] h1 n show ?thesis
    by (simp add: obj_get_def)
qed

section \<open>Failed logins and signups\<close>

text \<open>
  What a failed login does keep: the provider's user and token, and the stored user.
\<close>

lemma login_failure_frame:
  assumes "fst (login P email password a w) = Inl e"
  shows "fst (snd (login P email password a w)) = a
    \<and> localStorage (snd (snd (login P email password a w))) ''user'' = localStorage w ''user''"
  using assms
  by (auto simp: login_def api_login_def setItem_def
      split: prod.splits sum.splits dest!: js_fetch_storage api_getMe_storage)

text \<open>
  C1: a \<^verbatim>\<open>login\<close> or \<^verbatim>\<open>signup\<close> that fails at any step propagates the error and
  commits no partial session state: the provider's user and token and both persisted
  entries are as before. The program does not do this when the credentials are accepted
  and the request for the user's details then fails: \<^verbatim>\<open>api.login\<close> has stored the
  new token by then and nothing removes it. Here the device starts without a token, the
  backend accepts the login and answers the request for the user with a 500: the call
  fails with the error of that response, and the token is in the storage afterwards. The
  same holds for a signup, which ends in the same login.
\<close>

theorem login_failure_leaves_token:
  "fst (login (demo_platform [login_ok, me_down]) ''alice@x.com'' ''pw1234''
          AuthProvider_init (fresh_world ()))
     = Inl (Error ''An unknown error occurred.'')
   \<and> localStorage (fresh_world ()) ''token'' = None
   \<and> localStorage (snd (snd (login (demo_platform [login_ok, me_down]) ''alice@x.com'' ''pw1234''
                                 AuthProvider_init (fresh_world ())))) ''token'' = Some ''tok''
   \<and> fst (signup (demo_platform [signup_ok, login_ok, me_down]) ''alice'' ''alice@x.com'' ''pw1234''
            AuthProvider_init (fresh_world ()))
     = Inl (Error ''An unknown error occurred.'')
   \<and> localStorage (snd (snd (signup (demo_platform [signup_ok, login_ok, me_down]) ''alice''
                                 ''alice@x.com'' ''pw1234'' AuthProvider_init (fresh_world ()))))
        ''token'' = Some ''tok''"
  by (simp add: run_defs)

section \<open>Startup validation\<close>

text \<open>The loading flag is cleared by every run of the startup validation.\<close>

lemma initAuth_loading_resolves: "\<not> auth_isLoading (fst (initAuth P a w))"
  by (simp add: initAuth_def split: option.splits prod.splits sum.splits)

text \<open>
  C2: on startup, when a token is persisted and its validation through the "who am I"
  request fails, for whatever reason, both persisted entries are removed, the provider
  holds neither a user nor a token (it is unauthenticated), and the loading flag is
  false. A stored token that is the empty string counts as no token for the program, and
  no validation is attempted for it.
\<close>

theorem initAuth_validation_failure:
  assumes "localStorage w ''token'' = Some storedToken" and "storedToken \<noteq> []"
    and "fst (api_getMe P w) = Inl e"
  shows "localStorage (snd (initAuth P AuthProvider_init w)) ''token'' = None
    \<and> localStorage (snd (initAuth P AuthProvider_init w)) ''user'' = None
    \<and> auth_user (fst (initAuth P AuthProvider_init w)) = JNull
    \<and> auth_token (fst (initAuth P AuthProvider_init w)) = JNull
    \<and> \<not> isAuthenticated (fst (initAuth P AuthProvider_init w))
    \<and> \<not> auth_isLoading (fst (initAuth P AuthProvider_init w))"
proof (cases "api_getMe P w")
  case (Pair r w1)
  with assms(3) have r: "r = Inl e" by simp
  show ?thesis
    using assms(1,2) Pair r
    by (simp add: initAuth_def removeItem_def AuthProvider_init_def isAuthenticated_def)
qed

theorem initAuth_validation_failure_witness:
  "localStorage stale_world ''token'' = Some ''expired'' \<and> ''expired'' \<noteq> []
   \<and> localStorage stale_world ''user'' = Some ''{}''
   \<and> fst (api_getMe (demo_platform [me_unauthorized]) stale_world)
       = Inl (Error ''Could not validate credentials'')
   \<and> localStorage (snd (initAuth (demo_platform [me_unauthorized]) AuthProvider_init stale_world))
        ''token'' = None
   \<and> localStorage (snd (initAuth (demo_platform [me_unauthorized]) AuthProvider_init stale_world))
        ''user'' = None
   \<and> \<not> isAuthenticated (fst (initAuth (demo_platform [me_unauthorized]) AuthProvider_init stale_world))
   \<and> \<not> auth_isLoading (fst (initAuth (demo_platform [me_unauthorized]) AuthProvider_init stale_world))"
proof -
  have h1: "localStorage stale_world ''token'' = Some ''expired''"
    by (simp add: stale_world_def)
  have h2: "''expired'' \<noteq> []"
    by simp
  have h3: "fst (api_getMe (demo_platform [me_unauthorized]) stale_world)
              = Inl (Error ''Could not validate credentials'')"
    by (simp add: run_defs)
  have u: "localStorage stale_world ''user'' = Some ''{}''"
    by (simp add: stale_world_def)
  from initAuth_validation_failure [OF h1 h2 h3] h1 h2 h3 u show ?thesis
    by simp
qed

section \<open>Refreshing the note list\<close>

text \<open>
  C7: a refresh whose fetch fails sets the visible error and leaves the published list
  as it was; a refresh without an authenticated user changes nothing and issues no
  request (the whole world, with its log of requests, is unchanged).
\<close>

theorem fetchNotes_failure_and_guard:
  "(\<not> truthy user \<longrightarrow> fetchNotes P user h w = (h, w))
   \<and> (truthy user \<and> fst (api_getNotesForUser P w) = Inl e \<longrightarrow>
        error (fst (fetchNotes P user h w)) = Some ''Failed to fetch notes.''
        \<and> h_notes (fst (fetchNotes P user h w)) = h_notes h)"
  by (auto simp: fetchNotes_def split: prod.splits sum.splits)

theorem fetchNotes_failure_and_guard_witness:
  "\<not> truthy JNull
   \<and> fetchNotes (demo_platform []) JNull editing (fresh_world ()) = (editing, fresh_world ())
   \<and> truthy alice
   \<and> fst (api_getNotesForUser (demo_platform []) (fresh_world ())) = Inl TypeError
   \<and> error (fst (fetchNotes (demo_platform []) alice editing (fresh_world ())))
       = Some ''Failed to fetch notes.''
   \<and> h_notes (fst (fetchNotes (demo_platform []) alice editing (fresh_world ()))) = h_notes editing"
proof -
  have h1: "\<not> truthy JNull" by simp
  have h2: "truthy alice" by (simp add: alice_def)
  have h3: "fst (api_getNotesForUser (demo_platform []) (fresh_world ())) = Inl TypeError"
    by (simp add: run_defs)
  from fetchNotes_failure_and_guard [of JNull "demo_platform []" editing "fresh_world ()" TypeError]
    fetchNotes_failure_and_guard [of alice "demo_platform []" editing "fresh_world ()" TypeError]
    h1 h2 h3
  show ?thesis by simp
qed

text \<open>
  C9: refresh is idempotent. When the backend answers the second request for the notes
  as it answered the first, a second refresh right after the first publishes the same
  ordered list. (Without a user both refreshes do nothing, so no user is assumed.)
\<close>

theorem fetchNotes_idempotent:
  assumes "fst (fetch P (backend (snd (fetchNotes P user h w))) (notes_request w))
             = fst (fetch P (backend w) (notes_request w))"
  shows "h_notes (fst (fetchNotes P user (fst (fetchNotes P user h w)) (snd (fetchNotes P user h w))))
           = h_notes (fst (fetchNotes P user h w))"
proof -
  let ?w1 = "snd (fetchNotes P user h w)"
  have "localStorage ?w1 = localStorage w"
    by (rule fetchNotes_localStorage)
  then have rq: "notes_request ?w1 = notes_request w"
    by (simp add: notes_request_def getAuthHeaders_def)
  have same: "fst (api_getNotesForUser P ?w1) = fst (api_getNotesForUser P w)"
    by (simp add: api_getNotesForUser_result rq assms)
  show ?thesis
    by (simp add: fetchNotes_notes same split: sum.splits)
qed

theorem fetchNotes_idempotent_witness:
  "fst (fetch (demo_platform [notes_ok]) (backend (snd (fetchNotes (demo_platform [notes_ok]) alice
            HomePage_init (fresh_world ())))) (notes_request (fresh_world ())))
     = fst (fetch (demo_platform [notes_ok]) (backend (fresh_world ())) (notes_request (fresh_world ())))
   \<and> h_notes (fst (fetchNotes (demo_platform [notes_ok]) alice
          (fst (fetchNotes (demo_platform [notes_ok]) alice HomePage_init (fresh_world ())))
          (snd (fetchNotes (demo_platform [notes_ok]) alice HomePage_init (fresh_world ())))))
     = h_notes (fst (fetchNotes (demo_platform [notes_ok]) alice HomePage_init (fresh_world ())))
   \<and> h_notes (fst (fetchNotes (demo_platform [notes_ok]) alice HomePage_init (fresh_world ())))
     = [fetched_note ''b'' ''2024-01-03'', fetched_note ''a'' ''2024-01-02'',
        fetched_note ''c'' ''2024-01-02'']"
proof -
  have h: "fst (fetch (demo_platform [notes_ok]) (backend (snd (fetchNotes (demo_platform [notes_ok]) alice
            HomePage_init (fresh_world ())))) (notes_request (fresh_world ())))
     = fst (fetch (demo_platform [notes_ok]) (backend (fresh_world ())) (notes_request (fresh_world ())))"
    by simp
  have v: "h_notes (fst (fetchNotes (demo_platform [notes_ok]) alice HomePage_init (fresh_world ())))
     = [fetched_note ''b'' ''2024-01-03'', fetched_note ''a'' ''2024-01-02'',
        fetched_note ''c'' ''2024-01-02'']"
    by (simp add: fetchNotes_def run_defs Array_sort_def compare_notes_def)
  from fetchNotes_idempotent [OF h] h v show ?thesis by simp
qed

section \<open>Deleting a note\<close>

text \<open>
  C5: no DELETE request goes to the backend unless the user confirms twice, in the
  editor and again in the page's handler. When either confirmation is declined, the
  editor, the page and the world are unchanged; in particular no request at all has been
  added to the log. The Delete button is disabled while a deletion is running, so the
  handler starts with \<open>isDeleting\<close> false.
\<close>

theorem handleDelete_needs_both_confirmations:
  assumes "\<not> (confirmModal \<and> confirmDelete)" and "\<not> isDeleting m"
  shows "handleDelete P user confirmModal confirmDelete m h w = (m, h, w)"
  using assms by (auto simp: handleDelete_def handleDeleteNote_def split: option.splits)

theorem handleDelete_needs_both_confirmations_witness:
  "\<not> (True \<and> False) \<and> \<not> isDeleting typed \<and> editingNote editing \<noteq> None
   \<and> handleDelete (demo_platform []) alice True False typed editing (fresh_world ())
       = (typed, editing, fresh_world ())
   \<and> sent (snd (snd (handleDelete (demo_platform []) alice True False typed editing (fresh_world ()))))
       = []"
proof -
  have h1: "\<not> (True \<and> False)" by simp
  have h2: "\<not> isDeleting typed" by (simp add: typed_def)
  have h3: "editingNote editing \<noteq> None" by (simp add: editing_def)
  from handleDelete_needs_both_confirmations
         [OF h1 h2, of "demo_platform []" alice editing "fresh_world ()"] h1 h2 h3
  show ?thesis
    by (simp add: fresh_world_def)
qed

section \<open>The order of the published list\<close>

text \<open>
  Every note that \<^verbatim>\<open>getNotesForUser\<close> returns has had its \<^verbatim>\<open>last_update\<close> replaced by
  an ISO string, so its time is valid and the comparator never sees NaN. On such lists
  the model of \<^verbatim>\<open>sort\<close> is the library's stable insertion sort under the key
  \<open>recency\<close>.
\<close>

lemma map_of_obj_set: "map_of (obj_set k v ps) = (map_of ps)(k \<mapsto> v)"
  by (induction ps) auto

lemma obj_get_obj_set: "obj_get (obj_set k v ps) k' = (if k' = k then v else obj_get ps k')"
  by (simp add: obj_get_def map_of_obj_set)

lemma normalize_note_last_update:
  assumes "normalize_note P x = Inr n"
  shows "\<exists>v t. Date_getTime P v = Some t \<and> obj_get n ''last_update'' = JStr (Date_toISOString P t)"
  using assms
  by (fastforce simp: normalize_note_def new_Date_toISOString_def obj_get_obj_set
      split: sum.splits option.splits)

lemma map_notes_last_update:
  "map_notes P xs = Inr ns \<Longrightarrow> n \<in> set ns \<Longrightarrow>
     \<exists>v t. Date_getTime P v = Some t \<and> obj_get n ''last_update'' = JStr (Date_toISOString P t)"
proof (induction xs arbitrary: ns)
  case Nil
  then show ?case by simp
next
  case (Cons x xs)
  then show ?case
    by (auto split: sum.splits dest: normalize_note_last_update)
qed

lemma fetched_times_valid:
  assumes "iso_dates_parse P" and "fst (api_getNotesForUser P w) = Inr fetched"
    and "n \<in> set fetched"
  shows "last_update_time P n \<noteq> None"
proof -
  from assms(2) obtain xs where "map_notes P xs = Inr fetched"
    by (auto simp: api_getNotesForUser_result split: sum.splits jsval.splits)
  from map_notes_last_update [OF this assms(3)] obtain v t where
    "Date_getTime P v = Some t" "obj_get n ''last_update'' = JStr (Date_toISOString P t)"
    by blast
  with assms(1) show ?thesis
    unfolding iso_dates_parse_def last_update_time_def by metis
qed

lemma insert_sorted_insort_key:
  assumes "\<forall>y \<in> set (x # ys). last_update_time P y \<noteq> None"
  shows "insert_sorted (compare_notes P) x ys = insort_key (recency P) x ys"
  using assms
proof (induction ys)
  case Nil
  then show ?case by simp
next
  case (Cons y ys)
  then obtain tx ty where "last_update_time P x = Some tx" "last_update_time P y = Some ty"
    by auto
  with Cons show ?case
    by (simp add: compare_notes_def recency_def last_update_time_def)
qed

lemma Array_sort_sort_key:
  assumes "\<forall>y \<in> set xs. last_update_time P y \<noteq> None"
  shows "Array_sort (compare_notes P) xs = sort_key (recency P) xs"
  using assms
proof (induction xs)
  case Nil
  then show ?case by (simp add: Array_sort_def)
next
  case (Cons x xs)
  then have IH: "Array_sort (compare_notes P) xs = sort_key (recency P) xs" by simp
  have "\<forall>y \<in> set (x # sort_key (recency P) xs). last_update_time P y \<noteq> None"
    using Cons.prems by simp
  from insert_sorted_insort_key [OF this] IH show ?case
    by (simp add: Array_sort_def sort_key_def)
qed

text \<open>
  C3: after a successful refresh the published list is the fetched list, rearranged
  (the same notes, each as often), ordered by \<^verbatim>\<open>last_update\<close> descending (for all
  positions \<open>i < j\<close> the time at \<open>i\<close> is not before the time at \<open>j\<close>), and
  stable: the notes with one and the same time stand in the order the backend gave them.
\<close>

theorem fetchNotes_publishes_sorted:
  assumes "iso_dates_parse P" and "truthy user"
    and "fst (api_getNotesForUser P w) = Inr fetched"
  shows "mset (h_notes (fst (fetchNotes P user h w))) = mset fetched
    \<and> (\<forall>i j. i < j \<and> j < length (h_notes (fst (fetchNotes P user h w))) \<longrightarrow>
           (\<exists>ti tj. last_update_time P (h_notes (fst (fetchNotes P user h w)) ! i) = Some ti
                  \<and> last_update_time P (h_notes (fst (fetchNotes P user h w)) ! j) = Some tj
                  \<and> tj \<le> ti))
    \<and> (\<forall>t. filter (\<lambda>n. last_update_time P n = t) (h_notes (fst (fetchNotes P user h w)))
           = filter (\<lambda>n. last_update_time P n = t) fetched)"
proof -
  define published where "published = h_notes (fst (fetchNotes P user h w))"
  have valid: "\<forall>n \<in> set fetched. last_update_time P n \<noteq> None"
    using fetched_times_valid [OF assms(1,3)] by blast
  have pub: "published = sort_key (recency P) fetched"
    using assms(2,3) Array_sort_sort_key [OF valid] by (simp add: published_def fetchNotes_notes)
  have perm: "mset published = mset fetched" by (simp add: pub)
  have srt: "sorted (map (recency P) published)" by (simp add: pub)
  have setp: "set published = set fetched" by (simp add: pub)
  have ord: "\<exists>ti tj. last_update_time P (published ! i) = Some ti
                  \<and> last_update_time P (published ! j) = Some tj \<and> tj \<le> ti"
    if ij: "i < j \<and> j < length published" for i j
  proof -
    from ij have "published ! i \<in> set published" "published ! j \<in> set published" by simp_all
    with valid setp obtain ti tj where
      t: "last_update_time P (published ! i) = Some ti" "last_update_time P (published ! j) = Some tj"
      by blast
    from srt ij have "recency P (published ! i) \<le> recency P (published ! j)"
      by (simp add: sorted_iff_nth_mono)
    with t show ?thesis by (simp add: recency_def)
  qed
  have stable: "filter (\<lambda>n. last_update_time P n = t) published
           = filter (\<lambda>n. last_update_time P n = t) fetched" for t
  proof (cases t)
    case None
    with valid setp show ?thesis by (simp add: filter_False)
  next
    case (Some k)
    have eq: "\<And>n. n \<in> set fetched \<Longrightarrow> (last_update_time P n = t) = (recency P n = - k)"
      using valid Some by (auto simp: recency_def)
    have "filter (\<lambda>n. last_update_time P n = t) published = filter (\<lambda>n. recency P n = - k) published"
      using eq setp by (intro filter_cong) auto
    also have "\<dots> = filter (\<lambda>n. recency P n = - k) fetched"
      unfolding pub by (rule sort_key_stable)
    also have "\<dots> = filter (\<lambda>n. last_update_time P n = t) fetched"
      using eq by (intro filter_cong) auto
    finally show ?thesis .
  qed
  from perm ord stable show ?thesis
    unfolding published_def by blast
qed

lemma demo_iso_dates_parse: "iso_dates_parse (demo_platform table)"
  by (simp add: iso_dates_parse_def demo_platform_def demo_getTime_def demo_toISOString_def)

theorem fetchNotes_publishes_sorted_witness:
  "iso_dates_parse (demo_platform [notes_ok]) \<and> truthy alice
   \<and> fst (api_getNotesForUser (demo_platform [notes_ok]) (fresh_world ()))
       = Inr [fetched_note ''a'' ''2024-01-02'', fetched_note ''b'' ''2024-01-03'',
              fetched_note ''c'' ''2024-01-02'']
   \<and> h_notes (fst (fetchNotes (demo_platform [notes_ok]) alice HomePage_init (fresh_world ())))
       = [fetched_note ''b'' ''2024-01-03'', fetched_note ''a'' ''2024-01-02'',
          fetched_note ''c'' ''2024-01-02'']
   \<and> filter (\<lambda>n. last_update_time (demo_platform [notes_ok]) n = Some 1704153600000)
        (h_notes (fst (fetchNotes (demo_platform [notes_ok]) alice HomePage_init (fresh_world ()))))
       = filter (\<lambda>n. last_update_time (demo_platform [notes_ok]) n = Some 1704153600000)
           [fetched_note ''a'' ''2024-01-02'', fetched_note ''b'' ''2024-01-03'',
            fetched_note ''c'' ''2024-01-02'']"
proof -
  have h1: "iso_dates_parse (demo_platform [notes_ok])"
    by (rule demo_iso_dates_parse)
  have h2: "truthy alice"
    by (simp add: alice_def)
  have h3: "fst (api_getNotesForUser (demo_platform [notes_ok]) (fresh_world ()))
       = Inr [fetched_note ''a'' ''2024-01-02'', fetched_note ''b'' ''2024-01-03'',
              fetched_note ''c'' ''2024-01-02'']"
    by (simp add: run_defs)
  have v: "h_notes (fst (fetchNotes (demo_platform [notes_ok]) alice HomePage_init (fresh_world ())))
       = [fetched_note ''b'' ''2024-01-03'', fetched_note ''a'' ''2024-01-02'',
          fetched_note ''c'' ''2024-01-02'']"
    by (simp add: fetchNotes_def run_defs Array_sort_def compare_notes_def)
  from fetchNotes_publishes_sorted [OF h1 h2 h3, of HomePage_init] h1 h2 h3 v show ?thesis
    by metis
qed

section \<open>Saving a note\<close>

lemma handleSaveNote_saveCall:
  "truthy user \<Longrightarrow>
   handleSaveNote P user title content h w =
     (case saveCall P title content h w of
        (Inl err, w1) \<Rightarrow> (h, alert ''Failed to save note.'' w1)
      | (Inr v, w1) \<Rightarrow>
          (closeModal (fst (fetchNotes P user h w1)), snd (fetchNotes P user h w1)))"
  by (simp add: handleSaveNote_def saveCall_def split: prod.splits sum.splits option.splits)

text \<open>
  C6: the published list changes only through a successful re-fetch. With a user
  present, a save (create when no note is edited, update otherwise) that fails leaves the
  page's state, with the list, the open editor and the edited note, and the editor's
  entered title and content as they were, and shows the notice "Failed to save note.";
  a save that succeeds issues the request of a refresh right after and closes the
  editor. If the list differs afterwards, the save succeeded, the re-fetch succeeded, and
  the list is the sorted result of that fetch.
\<close>

theorem handleSave_outcomes:
  assumes "truthy user"
  shows "(\<forall>e. fst (saveCall P (m_title m) (m_content m) h w) = Inl e \<longrightarrow>
            fst (snd (handleSave P user m h w)) = h
            \<and> m_title (fst (handleSave P user m h w)) = m_title m
            \<and> m_content (fst (handleSave P user m h w)) = m_content m
            \<and> alerts (snd (snd (handleSave P user m h w))) = alerts w @ [''Failed to save note.'']
            \<and> sent (snd (snd (handleSave P user m h w)))
                = sent (snd (saveCall P (m_title m) (m_content m) h w)))
       \<and> (\<forall>v. fst (saveCall P (m_title m) (m_content m) h w) = Inr v \<longrightarrow>
            snd (handleSave P user m h w)
              = (closeModal (fst (fetchNotes P user h (snd (saveCall P (m_title m) (m_content m) h w)))),
                 snd (fetchNotes P user h (snd (saveCall P (m_title m) (m_content m) h w))))
            \<and> \<not> isModalOpen (fst (snd (handleSave P user m h w)))
            \<and> sent (snd (snd (handleSave P user m h w)))
                = sent (snd (saveCall P (m_title m) (m_content m) h w))
                  @ [notes_request (snd (saveCall P (m_title m) (m_content m) h w))]
            \<and> alerts (snd (snd (handleSave P user m h w))) = alerts w)
       \<and> (h_notes (fst (snd (handleSave P user m h w))) \<noteq> h_notes h \<longrightarrow>
            (\<exists>v fetched. fst (saveCall P (m_title m) (m_content m) h w) = Inr v
               \<and> fst (api_getNotesForUser P (snd (saveCall P (m_title m) (m_content m) h w)))
                   = Inr fetched
               \<and> h_notes (fst (snd (handleSave P user m h w)))
                   = Array_sort (compare_notes P) fetched))"
proof (cases "saveCall P (m_title m) (m_content m) h w")
  case (Pair r w1)
  have al: "alerts w1 = alerts w"
    using saveCall_alerts [of P "m_title m" "m_content m" h w] Pair by simp
  show ?thesis
  proof (cases r)
    case (Inl e)
    with Pair assms show ?thesis
      by (simp add: handleSave_def handleSaveNote_saveCall alert_def al)
  next
    case (Inr v)
    have hs: "handleSave P user m h w =
        (m\<lparr>isSaving := True, isSaving := False\<rparr>,
         closeModal (fst (fetchNotes P user h w1)), snd (fetchNotes P user h w1))"
      using assms Pair Inr by (simp add: handleSave_def handleSaveNote_saveCall)
    have w2: "snd (fetchNotes P user h w1) =
        w1\<lparr>backend := snd (fetch P (backend w1) (notes_request w1)),
           sent := sent w1 @ [notes_request w1]\<rparr>"
      using assms by (simp add: fetchNotes_truthy api_getNotesForUser_world)
    have n: "h_notes (closeModal (fst (fetchNotes P user h w1))) \<noteq> h_notes h \<longrightarrow>
            (\<exists>fetched. fst (api_getNotesForUser P w1) = Inr fetched
               \<and> h_notes (closeModal (fst (fetchNotes P user h w1)))
                   = Array_sort (compare_notes P) fetched)"
      using assms by (auto simp: closeModal_def fetchNotes_notes split: sum.splits)
    from Pair Inr hs w2 al n show ?thesis
      by (simp add: closeModal_def)
  qed
qed

theorem handleSave_outcomes_witness:
  "truthy alice
   \<and> fst (saveCall (demo_platform []) (m_title typed) (m_content typed) editing (fresh_world ()))
       = Inl TypeError
   \<and> fst (snd (handleSave (demo_platform []) alice typed editing (fresh_world ()))) = editing
   \<and> m_title (fst (handleSave (demo_platform []) alice typed editing (fresh_world ())))
       = JStr ''Groceries''
   \<and> alerts (snd (snd (handleSave (demo_platform []) alice typed editing (fresh_world ()))))
       = [''Failed to save note.'']"
proof -
  have h1: "truthy alice"
    by (simp add: alice_def)
  have h2: "fst (saveCall (demo_platform []) (m_title typed) (m_content typed) editing (fresh_world ()))
       = Inl TypeError"
    by (simp add: saveCall_def run_defs)
  from handleSave_outcomes [OF h1, of "demo_platform []" typed editing "fresh_world ()"] h1 h2
  show ?thesis
    by (simp add: typed_def fresh_world_def)
qed

section \<open>Requests without a token\<close>

lemma no_token_headers:
  "localStorage w ''token'' = None \<or> localStorage w ''token'' = Some [] \<Longrightarrow> getAuthHeaders w = []"
  by (auto simp: getAuthHeaders_def)

lemma handleResponse_Inr_ok: "handleResponse r = Inr v \<Longrightarrow> ok r"
  using handleResponse_not_ok [of r] by auto

lemma sends_getMe:
  "getAuthHeaders w = [] \<Longrightarrow>
   sends_unauthenticated P w
     \<lparr>req_method = ''GET'', req_url = API_URL @ ''/users/me'', req_headers = [],
      req_body = JUndefined\<rparr> (api_getMe P w)"
  by (auto simp: sends_unauthenticated_def api_getMe_def js_fetch_def failure_def
      split: prod.splits sum.splits jsval.splits dest: handleResponse_Inr_ok)

lemma sends_getNotesForUser:
  "getAuthHeaders w = [] \<Longrightarrow>
   sends_unauthenticated P w
     \<lparr>req_method = ''GET'', req_url = API_URL @ ''/notes'', req_headers = [],
      req_body = JUndefined\<rparr> (api_getNotesForUser P w)"
  by (auto simp: sends_unauthenticated_def api_getNotesForUser_def js_fetch_def failure_def
      split: prod.splits sum.splits jsval.splits dest: handleResponse_Inr_ok)

lemma sends_createNote:
  "getAuthHeaders w = [] \<Longrightarrow>
   sends_unauthenticated P w
     \<lparr>req_method = ''POST'', req_url = API_URL @ ''/notes'',
      req_headers = [(''Content-Type'', ''application/json'')],
      req_body = JSON_stringify P (JObj [(''title'', title), (''content'', content)])\<rparr>
     (api_createNote P title content w)"
  by (auto simp: sends_unauthenticated_def api_createNote_def js_fetch_def failure_def
      split: prod.splits sum.splits jsval.splits dest: handleResponse_Inr_ok)

lemma sends_updateNote:
  "getAuthHeaders w = [] \<Longrightarrow> js_toString noteId = Inr s \<Longrightarrow>
   sends_unauthenticated P w
     \<lparr>req_method = ''PUT'', req_url = API_URL @ ''/notes/'' @ s,
      req_headers = [(''Content-Type'', ''application/json'')],
      req_body = JSON_stringify P (JObj [(''title'', title), (''content'', content)])\<rparr>
     (api_updateNote P noteId title content w)"
  by (auto simp: sends_unauthenticated_def api_updateNote_def js_fetch_def failure_def
      split: prod.splits sum.splits jsval.splits dest: handleResponse_Inr_ok)

lemma sends_deleteNote:
  "getAuthHeaders w = [] \<Longrightarrow> js_toString noteId = Inr s \<Longrightarrow>
   sends_unauthenticated P w
     \<lparr>req_method = ''DELETE'', req_url = API_URL @ ''/notes/'' @ s, req_headers = [],
      req_body = JUndefined\<rparr> (api_deleteNote P noteId w)"
  by (auto simp: sends_unauthenticated_def api_deleteNote_def js_fetch_def failure_def
      split: prod.splits sum.splits jsval.splits dest: handleResponse_Inr_ok)

text \<open>
  C10: with no token in the storage (absent, or the empty string, which the program
  treats alike), \<^verbatim>\<open>getAuthHeaders\<close> gives the empty header set, and each of the five
  authenticated calls still issues its request, without an \<^verbatim>\<open>Authorization\<close> header,
  and reports the error that comes back from the backend. The create and update
  requests carry their \<^verbatim>\<open>Content-Type\<close> header and nothing else.
\<close>

theorem requests_without_token:
  assumes "localStorage w ''token'' = None \<or> localStorage w ''token'' = Some []"
  shows "getAuthHeaders w = []
    \<and> sends_unauthenticated P w
        \<lparr>req_method = ''GET'', req_url = API_URL @ ''/users/me'', req_headers = [],
         req_body = JUndefined\<rparr> (api_getMe P w)
    \<and> sends_unauthenticated P w
        \<lparr>req_method = ''GET'', req_url = API_URL @ ''/notes'', req_headers = [],
         req_body = JUndefined\<rparr> (api_getNotesForUser P w)
    \<and> sends_unauthenticated P w
        \<lparr>req_method = ''POST'', req_url = API_URL @ ''/notes'',
         req_headers = [(''Content-Type'', ''application/json'')],
         req_body = JSON_stringify P (JObj [(''title'', title), (''content'', content)])\<rparr>
        (api_createNote P title content w)
    \<and> (js_toString noteId = Inr s \<longrightarrow>
        sends_unauthenticated P w
          \<lparr>req_method = ''PUT'', req_url = API_URL @ ''/notes/'' @ s,
           req_headers = [(''Content-Type'', ''application/json'')],
           req_body = JSON_stringify P (JObj [(''title'', title), (''content'', content)])\<rparr>
          (api_updateNote P noteId title content w))
    \<and> (js_toString noteId = Inr s \<longrightarrow>
        sends_unauthenticated P w
          \<lparr>req_method = ''DELETE'', req_url = API_URL @ ''/notes/'' @ s, req_headers = [],
           req_body = JUndefined\<rparr> (api_deleteNote P noteId w))"
  by (intro conjI impI sends_getMe sends_getNotesForUser sends_createNote sends_updateNote
      sends_deleteNote no_token_headers [OF assms])

theorem requests_without_token_witness:
  "localStorage (fresh_world ()) ''token'' = None
   \<and> js_toString (JStr ''7'') = Inr ''7''
   \<and> sends_unauthenticated (demo_platform [me_unauthorized]) (fresh_world ())
        \<lparr>req_method = ''GET'', req_url = API_URL @ ''/users/me'', req_headers = [],
         req_body = JUndefined\<rparr> (api_getMe (demo_platform [me_unauthorized]) (fresh_world ()))
   \<and> sends_unauthenticated (demo_platform [me_unauthorized]) (fresh_world ())
          \<lparr>req_method = ''DELETE'', req_url = API_URL @ ''/notes/'' @ ''7'', req_headers = [],
           req_body = JUndefined\<rparr>
          (api_deleteNote (demo_platform [me_unauthorized]) (JStr ''7'') (fresh_world ()))
   \<and> fst (api_getMe (demo_platform [me_unauthorized]) (fresh_world ()))
       = Inl (Error ''Could not validate credentials'')
   \<and> sent (snd (api_getMe (demo_platform [me_unauthorized]) (fresh_world ())))
       = [\<lparr>req_method = ''GET'', req_url = ''http://localhost:8000/users/me'', req_headers = [],
           req_body = JUndefined\<rparr>]"
proof -
  have h1: "localStorage (fresh_world ()) ''token'' = None"
    by (simp add: fresh_world_def)
  then have h: "localStorage (fresh_world ()) ''token'' = None
      \<or> localStorage (fresh_world ()) ''token'' = Some []" by simp
  have h2: "js_toString (JStr ''7'') = Inr ''7''"
    by simp
  have v: "fst (api_getMe (demo_platform [me_unauthorized]) (fresh_world ()))
       = Inl (Error ''Could not validate credentials'')"
    by (simp add: run_defs)
  have r: "sent (snd (api_getMe (demo_platform [me_unauthorized]) (fresh_world ())))
       = [\<lparr>req_method = ''GET'', req_url = ''http://localhost:8000/users/me'', req_headers = [],
           req_body = JUndefined\<rparr>]"
    by (simp add: run_defs)
  from requests_without_token [OF h, of "demo_platform [me_unauthorized]" _ _ "JStr ''7''" "''7''"]
    h1 h2 v r
  show ?thesis by simp
qed

section \<open>The persisted session\<close>

lemma session_ok_fresh: "session_ok (fresh_world b)"
  by (simp add: session_ok_def session_inv_def fresh_world_def)

lemma session_ok_backend: "session_ok (w\<lparr>backend := b\<rparr>) = session_ok w"
  by (simp add: session_ok_def)

lemma session_ok_set_user:
  "session_ok w \<Longrightarrow> localStorage w ''token'' \<noteq> None \<Longrightarrow> session_ok (setItem ''user'' v w)"
  by (simp add: session_ok_def session_inv_def setItem_def)

lemma session_ok_clear:
  "session_ok w \<Longrightarrow> session_ok (removeItem ''token'' (removeItem ''user'' w))"
  by (simp add: session_ok_def session_inv_def removeItem_def)

lemma session_ok_api_login:
  "session_ok w \<Longrightarrow> session_ok (snd (api_login P email password w))"
  by (auto simp: api_login_def session_ok_def session_inv_def setItem_def
      split: prod.splits sum.splits dest!: js_fetch_storage api_getMe_storage)

lemma session_ok_api_signup:
  "session_ok w \<Longrightarrow> session_ok (snd (api_signup P username email password w))"
  by (auto simp: api_signup_def split: prod.splits sum.splits
      intro!: session_ok_api_login dest!: js_fetch_storage) (simp_all add: session_ok_def)

lemma session_ok_initAuth:
  assumes "session_ok w"
  shows "session_ok (snd (initAuth P a w))"
proof (cases "api_getMe P w")
  case (Pair r w1)
  from api_getMe_storage [OF Pair] assms
  have w1: "session_ok w1" "localStorage w1 ''token'' = localStorage w ''token''"
    by (simp_all add: session_ok_def)
  show ?thesis
    using assms w1 Pair
    by (auto simp: initAuth_def session_ok_clear session_ok_set_user
        split: option.splits sum.splits)
qed

text \<open>
  C8: in every state the provider can reach by startup validation, login, signup and
  logout, the storage holds no user without a token, and the same is true of the
  storage after each single write on the way there.
\<close>

theorem session_invariant:
  "reachable P (a, w) \<Longrightarrow> session_inv (localStorage w) \<and> list_all session_inv (observed w)"
proof -
  have "reachable P s \<Longrightarrow> session_ok (snd s)" for s
  proof (induction rule: reachable.induct)
    case (start b)
    then show ?case by (simp add: session_ok_fresh)
  next
    case (elsewhere a w b)
    then show ?case by (simp add: session_ok_backend)
  next
    case (startup a w)
    then show ?case by (simp add: session_ok_initAuth)
  next
    case (logged_in a w email password)
    then show ?case
      using session_ok_api_login [of w P email password]
      by (auto simp: login_def split: prod.splits sum.splits)
  next
    case (signed_up a w username email password)
    then show ?case
      using session_ok_api_signup [of w P username email password]
      by (auto simp: signup_def split: prod.splits sum.splits)
  next
    case (logged_out a w)
    then show ?case by (simp add: logout_def session_ok_clear)
  qed simp
  from this [of "(a, w)"] show "reachable P (a, w) \<Longrightarrow> ?thesis"
    by (simp add: session_ok_def)
qed

theorem session_invariant_witness:
  "reachable (demo_platform [login_ok, me_ok])
     (snd (login (demo_platform [login_ok, me_ok]) ''alice@x.com'' ''pw1234''
             AuthProvider_init (fresh_world ())))
   \<and> localStorage (snd (snd (login (demo_platform [login_ok, me_ok]) ''alice@x.com'' ''pw1234''
             AuthProvider_init (fresh_world ())))) ''token'' = Some ''tok''
   \<and> localStorage (snd (snd (login (demo_platform [login_ok, me_ok]) ''alice@x.com'' ''pw1234''
             AuthProvider_init (fresh_world ())))) ''user'' \<noteq> None
   \<and> length (observed (snd (snd (login (demo_platform [login_ok, me_ok]) ''alice@x.com'' ''pw1234''
             AuthProvider_init (fresh_world ()))))) = 2
   \<and> session_inv (localStorage (snd (snd (login (demo_platform [login_ok, me_ok]) ''alice@x.com''
             ''pw1234'' AuthProvider_init (fresh_world ())))))
   \<and> list_all session_inv (observed (snd (snd (login (demo_platform [login_ok, me_ok])
             ''alice@x.com'' ''pw1234'' AuthProvider_init (fresh_world ())))))"
proof -
  let ?P = "demo_platform [login_ok, me_ok]"
  let ?s = "snd (login ?P ''alice@x.com'' ''pw1234'' AuthProvider_init (fresh_world ()))"
  have r: "reachable ?P ?s"
    by (rule reachable.logged_in [OF reachable.start])
  then have r': "reachable ?P (fst ?s, snd ?s)" by simp
  have t: "localStorage (snd ?s) ''token'' = Some ''tok''"
    by (simp add: run_defs)
  have u: "localStorage (snd ?s) ''user'' \<noteq> None"
    by (simp add: run_defs)
  have n: "length (observed (snd ?s)) = 2"
    by (simp add: run_defs)
  from session_invariant [OF r'] r t u n show ?thesis by simp
qed

end
